theory Spec2Isabelle
  imports Main
begin

section \<open>HTTP handlers of the user service (handlers.go)\<close>

text \<open>
  The file handlers.go holds four request handlers and one helper that writes an error
  response. Each handler is a function of the response writer and the request; what it
  calls outside the file (the JSON decoder and encoder, the validators, the UserService,
  the JWT library, the process-wide secret) is collected in a record of collaborators, so
  that every theorem holds whatever these collaborators do.
\<close>

subsection \<open>Values\<close>

text \<open>A Go \<^verbatim>\<open>error\<close> is represented by the text its \<^verbatim>\<open>Error()\<close> method returns.\<close>

type_synonym error = string

text \<open>
  A value of type \<^verbatim>\<open>interface{}\<close> as encoding/json produces it, and the JSON documents
  handed to \<^verbatim>\<open>json.Marshal\<close>. No handler reads a number, so a number is kept as an
  integer.
\<close>

datatype json =
    JNull
  | JBool bool
  | JNumber int
  | JString string
  | JArray "json list"
  | JObject "(string \<times> json) list"

text \<open>
  The type assertion \<^verbatim>\<open>m[k].(string)\<close> on a \<^verbatim>\<open>map[string]interface{}\<close>: a missing key
  reads as the nil interface, and the assertion panics on everything but a string.
  \<open>None\<close> stands for the panic.
\<close>

fun assert_string :: "json option \<Rightarrow> string option" where
  "assert_string (Some (JString s)) = Some s"
| "assert_string _ = None"

subsection \<open>Requests and data-transfer structures\<close>

record request =
  Body :: string
  Referer :: string
  Vars :: "string \<rightharpoonup> string"

text \<open>\<^verbatim>\<open>mux.Vars(r)["id"]\<close>: a missing route variable reads as the empty string.\<close>

definition route_var :: "request \<Rightarrow> string \<Rightarrow> string" where
  "route_var r k = (case Vars r k of None \<Rightarrow> [] | Some v \<Rightarrow> v)"

text \<open>
  Modelled from the spec: the structures of the packages reqres and model are declared
  outside handlers.go. Their fields are the ones the handlers read and write; the spec
  gives the creation schema (email, first name, last name, password, role, username), the
  user (identifier, username, email, first and last name, role), the login credentials,
  the refresh payload carrying a token, and the single-field message envelope.
\<close>

record create_user_request =
  rq_Email :: string
  rq_FirstName :: string
  rq_LastName :: string
  rq_Password :: string
  rq_Role :: string
  rq_Username :: string

record create_user =
  Email :: string
  FirstName :: string
  LastName :: string
  Password :: string
  Role :: string
  Username :: string

record user =
  u_ID :: string
  u_Username :: string
  u_Email :: string
  u_FirstName :: string
  u_LastName :: string
  u_Role :: string

record login_request =
  lr_Username :: string
  lr_Password :: string

record refresh_token_request =
  rt_Token :: string

subsection \<open>Tokens\<close>

text \<open>
  A signing method is identified by its algorithm name: the JWT library keeps one
  registered instance per name, so comparing the instances compares the names.
\<close>

type_synonym signing_method = string

abbreviation SigningMethodHS256 :: signing_method where
  "SigningMethodHS256 \<equiv> ''HS256''"

record token =
  Raw :: string
  Method :: signing_method
  Header :: "string \<rightharpoonup> json"
  Claims :: "string \<rightharpoonup> json"
  Signature :: string
  Valid :: bool

subsection \<open>Collaborators\<close>

text \<open>
  A decoder returns the error of \<^verbatim>\<open>Decode(&payload)\<close> or the payload pointer it leaves
  behind; the pointer is nil (\<open>None\<close>) after the JSON document \<^verbatim>\<open>null\<close>. A validator
  returns its error, \<open>None\<close> for nil. A service method returns its error or its value.
  \<open>jwt_decode\<close> is the first half of \<^verbatim>\<open>jwt.Parse\<close> (split the three segments, decode
  header and claims, look the signing method up) and \<open>jwt_verify\<close> its last half (check
  the time claims and the signature, set the Valid flag).
\<close>

record env =
  SecretKey :: string
  decodeCreateUserRequest :: "string \<Rightarrow> error + create_user_request option"
  decodeLoginRequest :: "string \<Rightarrow> error + login_request option"
  decodeRefreshTokenRequest :: "string \<Rightarrow> error + refresh_token_request option"
  validateCreateUser :: "create_user_request option \<Rightarrow> error option"
  validateGetUserByID :: "string \<Rightarrow> error option"
  validateLoginUser :: "login_request option \<Rightarrow> error option"
  validateRefreshToken :: "refresh_token_request option \<Rightarrow> error option"
  svc_Create :: "create_user \<Rightarrow> error + user"
  svc_GetByID :: "string \<Rightarrow> error + user"
  svc_Login :: "string \<Rightarrow> string \<Rightarrow> string \<Rightarrow> error + string"
  svc_RefreshToken :: "string \<Rightarrow> string \<Rightarrow> string \<Rightarrow> string \<Rightarrow> error + string"
  json_Marshal :: "json \<Rightarrow> error + string"
  json_of_user :: "user \<Rightarrow> json"
  jwt_decode :: "string \<Rightarrow> error + token"
  jwt_verify :: "token \<Rightarrow> string \<Rightarrow> error + token"
  fmt_v :: "json option \<Rightarrow> string"
  DetectContentType :: "string \<Rightarrow> string"

text \<open>The calls a handler makes on the UserService, in order.\<close>

datatype svc_call =
    CallCreate create_user
  | CallGetByID string
  | CallLogin string string string
  | CallRefreshToken string string string string

subsection \<open>JSON form of the responses\<close>

text \<open>
  Modelled from the spec: the response structures of package reqres are declared outside
  handlers.go. The spec gives their JSON form: the user under the key \<open>user\<close>, the token
  under the key \<open>token\<close>, the error text under the key \<open>message\<close>.
\<close>

definition CreateUserResponse :: "env \<Rightarrow> user \<Rightarrow> json" where
  "CreateUserResponse d u = JObject [(''user'', json_of_user d u)]"

definition GetUserResponse :: "env \<Rightarrow> user \<Rightarrow> json" where
  "GetUserResponse d u = JObject [(''user'', json_of_user d u)]"

definition LoginResponse :: "string \<Rightarrow> json" where
  "LoginResponse t = JObject [(''token'', JString t)]"

definition ErrorResponse :: "string \<Rightarrow> json" where
  "ErrorResponse m = JObject [(''message'', JString m)]"

subsection \<open>The response writer\<close>

text \<open>
  \<^verbatim>\<open>http.ResponseWriter\<close> as net/http implements it. \<open>header\<close> is the map the handler
  edits through \<^verbatim>\<open>w.Header()\<close>. \<^verbatim>\<open>WriteHeader\<close> fixes the status and the headers that are
  sent: \<open>sent_header\<close> is the copy taken at that moment, and an edit of \<open>header\<close> made
  afterwards is not sent. A second \<^verbatim>\<open>WriteHeader\<close> is ignored. \<^verbatim>\<open>Write\<close> first calls
  \<^verbatim>\<open>WriteHeader(200)\<close> when no status was written; when the headers sent hold no
  Content-Type, the first non-empty write adds the type detected from its first 512
  bytes.
\<close>

record response_writer =
  header :: "string \<rightharpoonup> string"
  wroteHeader :: bool
  status :: nat
  sent_header :: "string \<rightharpoonup> string"
  written :: string

definition newResponseWriter :: response_writer where
  "newResponseWriter =
     \<lparr>header = Map.empty, wroteHeader = False, status = 0, sent_header = Map.empty, written = []\<rparr>"

definition Header_Set :: "string \<Rightarrow> string \<Rightarrow> response_writer \<Rightarrow> response_writer" where
  "Header_Set k v w = w\<lparr>header := (header w)(k \<mapsto> v)\<rparr>"

definition WriteHeader :: "nat \<Rightarrow> response_writer \<Rightarrow> response_writer" where
  "WriteHeader code w =
     (if wroteHeader w then w
      else w\<lparr>wroteHeader := True, status := code, sent_header := header w\<rparr>)"

definition Write :: "env \<Rightarrow> string \<Rightarrow> response_writer \<Rightarrow> response_writer" where
  "Write d p w =
     (let w1 = (if wroteHeader w then w else WriteHeader 200 w);
          w2 = (if sent_header w1 ''Content-Type'' = None \<and> written w1 = [] \<and> p \<noteq> []
                then w1\<lparr>sent_header := (sent_header w1)(''Content-Type'' \<mapsto> DetectContentType d (take 512 p))\<rparr>
                else w1)
      in w2\<lparr>written := written w2 @ p\<rparr>)"

abbreviation StatusOK :: nat where "StatusOK \<equiv> 200"
abbreviation StatusCreated :: nat where "StatusCreated \<equiv> 201"
abbreviation StatusBadRequest :: nat where "StatusBadRequest \<equiv> 400"
abbreviation StatusForbidden :: nat where "StatusForbidden \<equiv> 403"
abbreviation StatusInternalServerError :: nat where "StatusInternalServerError \<equiv> 500"

subsection \<open>respondWithError\<close>

definition respondWithError :: "env \<Rightarrow> string \<Rightarrow> error \<Rightarrow> response_writer \<Rightarrow> nat \<Rightarrow> response_writer" where
  "respondWithError d msg err w st =
     (let errMsg = ErrorResponse (msg @ '': '' @ err) in
      case json_Marshal d errMsg of
        Inl _ \<Rightarrow> WriteHeader st (Header_Set ''Content-Type'' ''application/json; charset=UTF-8'' w)
      | Inr js \<Rightarrow> Write d js (WriteHeader st (Header_Set ''Content-Type'' ''application/json'' w)))"

subsection \<open>The run of a handler\<close>

text \<open>
  What one call of a handler leaves behind: the response writer, the service calls made,
  and whether the handler ended in a panic (a nil dereference or a failed type
  assertion) instead of returning.
\<close>

record run =
  rw :: response_writer
  calls :: "svc_call list"
  panicked :: bool

definition returned :: "response_writer \<Rightarrow> svc_call list \<Rightarrow> run" where
  "returned w cs = \<lparr>rw = w, calls = cs, panicked = False\<rparr>"

definition panic :: "response_writer \<Rightarrow> svc_call list \<Rightarrow> run" where
  "panic w cs = \<lparr>rw = w, calls = cs, panicked = True\<rparr>"

subsection \<open>handleCreateUser\<close>

definition handleCreateUser :: "env \<Rightarrow> response_writer \<Rightarrow> request \<Rightarrow> run" where
  "handleCreateUser d w r =
     (case decodeCreateUserRequest d (Body r) of
        Inl err \<Rightarrow>
          returned (respondWithError d ''unable to decode json request'' err w StatusInternalServerError) []
      | Inr payload \<Rightarrow>
          (case validateCreateUser d payload of
             Some err \<Rightarrow> returned (respondWithError d ''Validation error'' err w StatusBadRequest) []
           | None \<Rightarrow>
               (case payload of
                  None \<Rightarrow> panic w []
                | Some p \<Rightarrow>
                    (let newUser = \<lparr>Email = rq_Email p, FirstName = rq_FirstName p,
                                    LastName = rq_LastName p, Password = rq_Password p,
                                    Role = rq_Role p, Username = rq_Username p\<rparr>
                     in case svc_Create d newUser of
                          Inl err \<Rightarrow>
                            returned (respondWithError d ''unable to add user'' err w StatusInternalServerError)
                              [CallCreate newUser]
                        | Inr u \<Rightarrow>
                            (case json_Marshal d (CreateUserResponse d u) of
                               Inl err \<Rightarrow>
                                 returned (respondWithError d ''unable to marshal json response'' err w
                                             StatusInternalServerError)
                                   [CallCreate newUser]
                             | Inr js \<Rightarrow>
                                 returned (Write d js
                                             (Header_Set ''Content-Type'' ''application/json''
                                                (WriteHeader StatusCreated w)))
                                   [CallCreate newUser])))))"

subsection \<open>handleGetUserByID\<close>

definition handleGetUserByID :: "env \<Rightarrow> response_writer \<Rightarrow> request \<Rightarrow> run" where
  "handleGetUserByID d w r =
     (let id = route_var r ''id'' in
      case validateGetUserByID d id of
        Some err \<Rightarrow> returned (respondWithError d ''Validation error'' err w StatusBadRequest) []
      | None \<Rightarrow>
          (case svc_GetByID d id of
             Inl err \<Rightarrow>
               returned (respondWithError d ''unable to get user'' err w StatusInternalServerError)
                 [CallGetByID id]
           | Inr u \<Rightarrow>
               (case json_Marshal d (GetUserResponse d u) of
                  Inl err \<Rightarrow>
                    returned (respondWithError d ''unable to marshal json response'' err w
                                StatusInternalServerError)
                      [CallGetByID id]
                | Inr js \<Rightarrow>
                    returned (Write d js
                                (Header_Set ''Content-Type'' ''application/json'' (WriteHeader StatusOK w)))
                      [CallGetByID id])))"

subsection \<open>handleLoginUser\<close>

definition handleLoginUser :: "env \<Rightarrow> response_writer \<Rightarrow> request \<Rightarrow> run" where
  "handleLoginUser d w r =
     (case decodeLoginRequest d (Body r) of
        Inl err \<Rightarrow>
          returned (respondWithError d ''unable to decode json request'' err w StatusInternalServerError) []
      | Inr payload \<Rightarrow>
          (case validateLoginUser d payload of
             Some err \<Rightarrow> returned (respondWithError d ''Validation error'' err w StatusBadRequest) []
           | None \<Rightarrow>
               (case payload of
                  None \<Rightarrow> panic w []
                | Some p \<Rightarrow>
                    (let c = CallLogin (lr_Username p) (lr_Password p) (Referer r)
                     in case svc_Login d (lr_Username p) (lr_Password p) (Referer r) of
                          Inl err \<Rightarrow>
                            returned (respondWithError d ''unable to log in user'' err w StatusBadRequest) [c]
                        | Inr tok \<Rightarrow>
                            (case json_Marshal d (LoginResponse tok) of
                               Inl err \<Rightarrow>
                                 returned (respondWithError d ''unable to marshal json response'' err w
                                             StatusInternalServerError) [c]
                             | Inr js \<Rightarrow>
                                 returned (Write d js
                                             (Header_Set ''Content-Type'' ''application/json''
                                                (WriteHeader StatusOK w))) [c])))))"

subsection \<open>handleRefreshToken\<close>

text \<open>
  The key function the handler passes to \<^verbatim>\<open>jwt.Parse\<close>: it refuses every signing method
  but HS256 and otherwise hands out the secret.
\<close>

definition keyFunc :: "env \<Rightarrow> token \<Rightarrow> error + string" where
  "keyFunc d tk =
     (if Method tk \<noteq> SigningMethodHS256
      then Inl (''Unexpected signing method: '' @ fmt_v d (Header tk ''alg''))
      else Inr (SecretKey d))"

text \<open>
  \<^verbatim>\<open>jwt.Parse\<close> of the JWT library, in the order of its steps: decode the token string,
  ask the key function for the key, verify. An error of the key function comes back as a
  validation error with the same text (an empty text reads "token is invalid"). The last
  step is a collaborator: the handler checks its error and the Valid flag of its token
  one after the other, and nothing is assumed here about how the two are related.
\<close>

definition ValidationError :: "string \<Rightarrow> error" where
  "ValidationError e = (if e = [] then ''token is invalid'' else e)"

definition jwt_Parse :: "env \<Rightarrow> string \<Rightarrow> (token \<Rightarrow> error + string) \<Rightarrow> error + token" where
  "jwt_Parse d tokenString kf =
     (case jwt_decode d tokenString of
        Inl e \<Rightarrow> Inl e
      | Inr tk \<Rightarrow>
          (case kf tk of
             Inl e \<Rightarrow> Inl (ValidationError e)
           | Inr key \<Rightarrow> jwt_verify d tk key))"

definition handleRefreshToken :: "env \<Rightarrow> response_writer \<Rightarrow> request \<Rightarrow> run" where
  "handleRefreshToken d w r =
     (case decodeRefreshTokenRequest d (Body r) of
        Inl err \<Rightarrow>
          returned (respondWithError d ''unable to decode json request'' err w StatusInternalServerError) []
      | Inr payload \<Rightarrow>
          (case validateRefreshToken d payload of
             Some err \<Rightarrow> returned (respondWithError d ''Validation error'' err w StatusBadRequest) []
           | None \<Rightarrow>
               (case payload of
                  None \<Rightarrow> panic w []
                | Some p \<Rightarrow>
                    (case jwt_Parse d (rt_Token p) (keyFunc d) of
                       Inl err \<Rightarrow> returned (respondWithError d ''Access not allowed'' err w StatusForbidden) []
                     | Inr tk \<Rightarrow>
                         if \<not> Valid tk
                         then returned (respondWithError d ''Access not allowed'' ''Invalid jwt token'' w
                                          StatusForbidden) []
                         else
                           (case assert_string (Claims tk ''sub'') of
                              None \<Rightarrow> panic w []
                            | Some sub \<Rightarrow>
                                (case assert_string (Claims tk ''username'') of
                                   None \<Rightarrow> panic w []
                                 | Some username \<Rightarrow>
                                     (case assert_string (Claims tk ''role'') of
                                        None \<Rightarrow> panic w []
                                      | Some role \<Rightarrow>
                                          (let c = CallRefreshToken sub username role (Referer r)
                                           in case svc_RefreshToken d sub username role (Referer r) of
                                                Inl err \<Rightarrow>
                                                  returned (respondWithError d ''unable to refresh token'' err w
                                                              StatusInternalServerError) [c]
                                              | Inr jwtToken \<Rightarrow>
                                                  (case json_Marshal d (LoginResponse jwtToken) of
                                                     Inl err \<Rightarrow>
                                                       returned (respondWithError d
                                                                   ''unable to marshal json response'' err w
                                                                   StatusInternalServerError) [c]
                                                   | Inr js \<Rightarrow>
                                                       returned (Write d js
                                                                   (Header_Set ''Content-Type'' ''application/json''
                                                                      (WriteHeader StatusOK w))) [c])))))))))"

subsection \<open>A test double\<close>

text \<open>
  One concrete set of collaborators, used to run the handlers on concrete requests. Its
  tokens are named by their text: \<open>good\<close> carries the three string claims, \<open>rs\<close> is
  signed with RS256, \<open>noclaims\<close> verifies but has no claims, \<open>unmarked\<close> comes back from
  the verification without error and without the Valid flag.
\<close>

definition token0 :: "string \<Rightarrow> signing_method \<Rightarrow> (string \<rightharpoonup> json) \<Rightarrow> token" where
  "token0 raw m cl =
     \<lparr>Raw = raw, Method = m, Header = [''alg'' \<mapsto> JString m], Claims = cl, Signature = [], Valid = False\<rparr>"

definition claims0 :: "string \<rightharpoonup> json" where
  "claims0 = [''sub'' \<mapsto> JString ''u1'', ''username'' \<mapsto> JString ''alice'', ''role'' \<mapsto> JString ''admin'']"

definition user0 :: user where
  "user0 = \<lparr>u_ID = ''u1'', u_Username = ''alice'', u_Email = ''alice@example.org'',
             u_FirstName = ''Alice'', u_LastName = ''Doe'', u_Role = ''admin''\<rparr>"

definition marshal0 :: "json \<Rightarrow> error + string" where
  "marshal0 j =
     (case j of
        JObject [(k, JString s)] \<Rightarrow> Inr (''{'' @ k @ '':'' @ s @ ''}'')
      | JObject [(k, _)] \<Rightarrow> Inr (''{'' @ k @ '':{}}'')
      | _ \<Rightarrow> Inl ''json: unsupported type'')"

definition env0 :: env where
  "env0 =
     \<lparr>SecretKey = ''secret'',
      decodeCreateUserRequest = (\<lambda>b.
        if b = ''{'' then Inl ''unexpected EOF''
        else if b = ''null'' then Inr None
        else Inr (Some \<lparr>rq_Email = b, rq_FirstName = ''Alice'', rq_LastName = ''Doe'',
                        rq_Password = ''pw'', rq_Role = ''admin'', rq_Username = ''alice''\<rparr>)),
      decodeLoginRequest = (\<lambda>b.
        if b = ''{'' then Inl ''unexpected EOF''
        else if b = ''null'' then Inr None
        else Inr (Some \<lparr>lr_Username = b, lr_Password = ''pw''\<rparr>)),
      decodeRefreshTokenRequest = (\<lambda>b.
        if b = ''{'' then Inl ''unexpected EOF''
        else if b = ''null'' then Inr None
        else Inr (Some \<lparr>rt_Token = b\<rparr>)),
      validateCreateUser = (\<lambda>p.
        case p of None \<Rightarrow> Some ''payload is required''
        | Some q \<Rightarrow> if rq_Email q = [] then Some ''email is required'' else None),
      validateGetUserByID = (\<lambda>i. if i = [] then Some ''id is required'' else None),
      validateLoginUser = (\<lambda>p.
        case p of None \<Rightarrow> Some ''payload is required''
        | Some q \<Rightarrow> if lr_Username q = [] then Some ''username is required'' else None),
      validateRefreshToken = (\<lambda>p.
        case p of None \<Rightarrow> Some ''payload is required''
        | Some q \<Rightarrow> if rt_Token q = [] then Some ''token is required'' else None),
      svc_Create = (\<lambda>c. Inr user0),
      svc_GetByID = (\<lambda>i. if i = ''u1'' then Inr user0 else Inl ''user not found''),
      svc_Login = (\<lambda>u p rf. if u = ''alice'' then Inr ''tok1'' else Inl ''wrong credentials''),
      svc_RefreshToken = (\<lambda>s u ro rf. Inr ''tok2''),
      json_Marshal = marshal0,
      json_of_user = (\<lambda>u. JObject [(''id'', JString (u_ID u))]),
      jwt_decode = (\<lambda>s.
        if s = ''good'' then Inr (token0 s ''HS256'' claims0)
        else if s = ''rs'' then Inr (token0 s ''RS256'' claims0)
        else if s = ''noclaims'' then Inr (token0 s ''HS256'' Map.empty)
        else if s = ''unmarked'' then Inr (token0 s ''HS256'' claims0)
        else Inl ''token contains an invalid number of segments''),
      jwt_verify = (\<lambda>tk key.
        if key \<noteq> ''secret'' then Inl ''signature is invalid''
        else if Raw tk = ''unmarked'' then Inr tk
        else Inr (tk\<lparr>Valid := True\<rparr>)),
      fmt_v = (\<lambda>v. case v of Some (JString s) \<Rightarrow> s | _ \<Rightarrow> ''<nil>''),
      DetectContentType = (\<lambda>p. ''text/plain; charset=utf-8'')\<rparr>"

definition req0 :: "string \<Rightarrow> request" where
  "req0 b = \<lparr>Body = b, Referer = ''http://example.org/'', Vars = [''id'' \<mapsto> ''u1'']\<rparr>"

definition req1 :: request where
  "req1 = \<lparr>Body = [], Referer = [], Vars = Map.empty\<rparr>"

text \<open>
  Two variants of the test double: one whose Create and RefreshToken fail, one whose
  encoder accepts the error envelope only. \<open>req2\<close> asks for a user the test double does
  not have.
\<close>

definition env_down :: env where
  "env_down =
     env0\<lparr>svc_Create := (\<lambda>c. Inl ''database unavailable''),
          svc_RefreshToken := (\<lambda>s u ro rf. Inl ''database unavailable'')\<rparr>"

definition env_nomarshal :: env where
  "env_nomarshal =
     env0\<lparr>json_Marshal := (\<lambda>j.
            case j of
              JObject [(k, v)] \<Rightarrow>
                if k = ''message'' then marshal0 j else Inl ''json: unsupported value''
            | _ \<Rightarrow> Inl ''json: unsupported value'')\<rparr>"

definition req2 :: request where
  "req2 = \<lparr>Body = [], Referer = [], Vars = [''id'' \<mapsto> ''u2'']\<rparr>"

subsection \<open>Error responses\<close>

text \<open>
  The response writer \<open>w\<close> is the error response for the context string \<open>ctx\<close>, the
  error text \<open>err\<close> and the status \<open>st\<close>: it is what respondWithError leaves behind on a
  new writer, its status is \<open>st\<close>, and its body is the JSON encoding of the object whose
  single field \<open>message\<close> holds \<open>ctx\<close>, a colon, a space and \<open>err\<close> (no body when that
  object cannot be marshalled).
\<close>

definition error_response :: "env \<Rightarrow> string \<Rightarrow> error \<Rightarrow> nat \<Rightarrow> response_writer \<Rightarrow> bool" where
  "error_response d ctx err st w =
     (w = respondWithError d ctx err newResponseWriter st
      \<and> status w = st
      \<and> (case json_Marshal d (JObject [(''message'', JString (ctx @ '': '' @ err))]) of
            Inl _ \<Rightarrow> written w = []
          | Inr js \<Rightarrow> written w = js))"

section \<open>Properties\<close>

subsection \<open>The response writer and respondWithError\<close>

lemma newResponseWriter_simps:
  "wroteHeader newResponseWriter = False"
  "written newResponseWriter = []"
  "header newResponseWriter = Map.empty"
  "sent_header newResponseWriter = Map.empty"
  by (simp_all add: newResponseWriter_def)

lemma respondWithError_status:
  "\<not> wroteHeader w \<Longrightarrow> status (respondWithError d m e w st) = st"
  by (simp add: respondWithError_def Write_def WriteHeader_def Header_Set_def Let_def
      split: sum.splits)

lemma respondWithError_written:
  "\<not> wroteHeader w \<Longrightarrow> written w = [] \<Longrightarrow>
   json_Marshal d (ErrorResponse (m @ '': '' @ e)) = Inr js \<Longrightarrow>
   written (respondWithError d m e w st) = js"
  by (simp add: respondWithError_def Write_def WriteHeader_def Header_Set_def Let_def)

lemma respondWithError_content_type:
  "\<not> wroteHeader w \<Longrightarrow>
   json_Marshal d (ErrorResponse (m @ '': '' @ e)) = Inr js \<Longrightarrow>
   sent_header (respondWithError d m e w st) ''Content-Type'' = Some ''application/json''"
  by (simp add: respondWithError_def Write_def WriteHeader_def Header_Set_def Let_def)

lemma run_simps:
  "rw (returned w cs) = w" "calls (returned w cs) = cs" "panicked (returned w cs) = False"
  "rw (panic w cs) = w" "calls (panic w cs) = cs" "panicked (panic w cs) = True"
  by (simp_all add: returned_def panic_def)

text \<open>
  A success path writes the status first and sets the Content-Type afterwards: the
  header is not among the headers sent, and the type detected from the body takes its
  place.
\<close>

lemma success_write_status:
  "\<not> wroteHeader w \<Longrightarrow>
   status (Write d js (Header_Set ''Content-Type'' ''application/json'' (WriteHeader st w))) = st"
  by (simp add: Write_def WriteHeader_def Header_Set_def Let_def)

lemma success_write_written:
  "\<not> wroteHeader w \<Longrightarrow> written w = [] \<Longrightarrow>
   written (Write d js (Header_Set ''Content-Type'' ''application/json'' (WriteHeader st w))) = js"
  by (simp add: Write_def WriteHeader_def Header_Set_def Let_def)

lemma success_write_content_type:
  "\<not> wroteHeader w \<Longrightarrow> written w = [] \<Longrightarrow> header w ''Content-Type'' = None \<Longrightarrow>
   sent_header (Write d js (Header_Set ''Content-Type'' ''application/json'' (WriteHeader st w)))
     ''Content-Type'' =
   (if js = [] then None else Some (DetectContentType d (take 512 js)))"
  by (simp add: Write_def WriteHeader_def Header_Set_def Let_def)

subsection \<open>The test double, field by field\<close>

lemma env0_simps:
  "SecretKey env0 = ''secret''"
  "decodeCreateUserRequest env0 b =
     (if b = ''{'' then Inl ''unexpected EOF''
      else if b = ''null'' then Inr None
      else Inr (Some \<lparr>rq_Email = b, rq_FirstName = ''Alice'', rq_LastName = ''Doe'',
                      rq_Password = ''pw'', rq_Role = ''admin'', rq_Username = ''alice''\<rparr>))"
  "decodeLoginRequest env0 b =
     (if b = ''{'' then Inl ''unexpected EOF''
      else if b = ''null'' then Inr None
      else Inr (Some \<lparr>lr_Username = b, lr_Password = ''pw''\<rparr>))"
  "decodeRefreshTokenRequest env0 b =
     (if b = ''{'' then Inl ''unexpected EOF''
      else if b = ''null'' then Inr None
      else Inr (Some \<lparr>rt_Token = b\<rparr>))"
  "validateCreateUser env0 pc =
     (case pc of None \<Rightarrow> Some ''payload is required''
      | Some q \<Rightarrow> if rq_Email q = [] then Some ''email is required'' else None)"
  "validateGetUserByID env0 i = (if i = [] then Some ''id is required'' else None)"
  "validateLoginUser env0 pl =
     (case pl of None \<Rightarrow> Some ''payload is required''
      | Some q \<Rightarrow> if lr_Username q = [] then Some ''username is required'' else None)"
  "validateRefreshToken env0 pr =
     (case pr of None \<Rightarrow> Some ''payload is required''
      | Some q \<Rightarrow> if rt_Token q = [] then Some ''token is required'' else None)"
  "svc_Create env0 c = Inr user0"
  "svc_GetByID env0 i = (if i = ''u1'' then Inr user0 else Inl ''user not found'')"
  "svc_Login env0 un pw rf = (if un = ''alice'' then Inr ''tok1'' else Inl ''wrong credentials'')"
  "svc_RefreshToken env0 s un ro rf = Inr ''tok2''"
  "json_Marshal env0 = marshal0"
  "json_of_user env0 u = JObject [(''id'', JString (u_ID u))]"
  "jwt_decode env0 s =
     (if s = ''good'' then Inr (token0 s ''HS256'' claims0)
      else if s = ''rs'' then Inr (token0 s ''RS256'' claims0)
      else if s = ''noclaims'' then Inr (token0 s ''HS256'' Map.empty)
      else if s = ''unmarked'' then Inr (token0 s ''HS256'' claims0)
      else Inl ''token contains an invalid number of segments'')"
  "jwt_verify env0 tk key =
     (if key \<noteq> ''secret'' then Inl ''signature is invalid''
      else if Raw tk = ''unmarked'' then Inr tk
      else Inr (tk\<lparr>Valid := True\<rparr>))"
  "fmt_v env0 v = (case v of Some (JString s) \<Rightarrow> s | _ \<Rightarrow> ''<nil>'')"
  "DetectContentType env0 b = ''text/plain; charset=utf-8''"
  by (simp_all add: env0_def)

lemma req0_simps:
  "Body (req0 b) = b" "Referer (req0 b) = ''http://example.org/''"
  "route_var (req0 b) ''id'' = ''u1''"
  by (simp_all add: req0_def route_var_def)

subsection \<open>The paths of the handlers\<close>

lemma handleCreateUser_decode_error:
  "decodeCreateUserRequest d (Body r) = Inl e \<Longrightarrow>
   handleCreateUser d w r =
     returned (respondWithError d ''unable to decode json request'' e w StatusInternalServerError) []"
  by (simp add: handleCreateUser_def)

lemma handleLoginUser_decode_error:
  "decodeLoginRequest d (Body r) = Inl e \<Longrightarrow>
   handleLoginUser d w r =
     returned (respondWithError d ''unable to decode json request'' e w StatusInternalServerError) []"
  by (simp add: handleLoginUser_def)

lemma handleRefreshToken_decode_error:
  "decodeRefreshTokenRequest d (Body r) = Inl e \<Longrightarrow>
   handleRefreshToken d w r =
     returned (respondWithError d ''unable to decode json request'' e w StatusInternalServerError) []"
  by (simp add: handleRefreshToken_def)

lemma handleCreateUser_validation_error:
  "decodeCreateUserRequest d (Body r) = Inr p \<Longrightarrow> validateCreateUser d p = Some e \<Longrightarrow>
   handleCreateUser d w r = returned (respondWithError d ''Validation error'' e w StatusBadRequest) []"
  by (simp add: handleCreateUser_def)

lemma handleGetUserByID_validation_error:
  "validateGetUserByID d (route_var r ''id'') = Some e \<Longrightarrow>
   handleGetUserByID d w r = returned (respondWithError d ''Validation error'' e w StatusBadRequest) []"
  by (simp add: handleGetUserByID_def)

lemma handleLoginUser_validation_error:
  "decodeLoginRequest d (Body r) = Inr p \<Longrightarrow> validateLoginUser d p = Some e \<Longrightarrow>
   handleLoginUser d w r = returned (respondWithError d ''Validation error'' e w StatusBadRequest) []"
  by (simp add: handleLoginUser_def)

lemma handleRefreshToken_validation_error:
  "decodeRefreshTokenRequest d (Body r) = Inr p \<Longrightarrow> validateRefreshToken d p = Some e \<Longrightarrow>
   handleRefreshToken d w r = returned (respondWithError d ''Validation error'' e w StatusBadRequest) []"
  by (simp add: handleRefreshToken_def)


lemma handleRefreshToken_parsed:
  "decodeRefreshTokenRequest d (Body r) = Inr (Some p) \<Longrightarrow> validateRefreshToken d (Some p) = None \<Longrightarrow>
   handleRefreshToken d w r =
     (case jwt_Parse d (rt_Token p) (keyFunc d) of
        Inl err \<Rightarrow> returned (respondWithError d ''Access not allowed'' err w StatusForbidden) []
      | Inr tk \<Rightarrow>
          if \<not> Valid tk
          then returned (respondWithError d ''Access not allowed'' ''Invalid jwt token'' w StatusForbidden) []
          else
            (case assert_string (Claims tk ''sub'') of
               None \<Rightarrow> panic w []
             | Some sub \<Rightarrow>
                 (case assert_string (Claims tk ''username'') of
                    None \<Rightarrow> panic w []
                  | Some username \<Rightarrow>
                      (case assert_string (Claims tk ''role'') of
                         None \<Rightarrow> panic w []
                       | Some role \<Rightarrow>
                           (case svc_RefreshToken d sub username role (Referer r) of
                              Inl err \<Rightarrow>
                                returned (respondWithError d ''unable to refresh token'' err w
                                            StatusInternalServerError)
                                  [CallRefreshToken sub username role (Referer r)]
                            | Inr jwtToken \<Rightarrow>
                                (case json_Marshal d (LoginResponse jwtToken) of
                                   Inl err \<Rightarrow>
                                     returned (respondWithError d ''unable to marshal json response'' err w
                                                 StatusInternalServerError)
                                       [CallRefreshToken sub username role (Referer r)]
                                 | Inr js \<Rightarrow>
                                     returned (Write d js
                                                 (Header_Set ''Content-Type'' ''application/json''
                                                    (WriteHeader StatusOK w)))
                                       [CallRefreshToken sub username role (Referer r)]))))))"
  by (simp add: handleRefreshToken_def Let_def split: sum.splits option.splits)

lemmas w0 = run_simps respondWithError_status respondWithError_written success_write_status
  success_write_written newResponseWriter_simps

text \<open>
  respondWithError writes the error response of its arguments, and a run that neither
  panics nor ends with the success status of its handler took one of the failing
  branches of the handler.
\<close>

lemma error_responseI:
  "error_response d ctx err st (respondWithError d ctx err newResponseWriter st)"
  by (simp add: error_response_def respondWithError_def ErrorResponse_def Write_def
      WriteHeader_def Header_Set_def newResponseWriter_def Let_def split: sum.splits)

lemma handleCreateUser_failure_cases:
  "panicked (handleCreateUser d newResponseWriter r)
   \<or> status (rw (handleCreateUser d newResponseWriter r)) = StatusCreated
   \<or> (\<exists>e. decodeCreateUserRequest d (Body r) = Inl e)
   \<or> (\<exists>p e. decodeCreateUserRequest d (Body r) = Inr p \<and> validateCreateUser d p = Some e)
   \<or> (\<exists>p e. decodeCreateUserRequest d (Body r) = Inr (Some p)
          \<and> validateCreateUser d (Some p) = None
          \<and> svc_Create d \<lparr>Email = rq_Email p, FirstName = rq_FirstName p, LastName = rq_LastName p,
                           Password = rq_Password p, Role = rq_Role p, Username = rq_Username p\<rparr>
              = Inl e)
   \<or> (\<exists>p u e. decodeCreateUserRequest d (Body r) = Inr (Some p)
          \<and> validateCreateUser d (Some p) = None
          \<and> svc_Create d \<lparr>Email = rq_Email p, FirstName = rq_FirstName p, LastName = rq_LastName p,
                           Password = rq_Password p, Role = rq_Role p, Username = rq_Username p\<rparr>
              = Inr u
          \<and> json_Marshal d (JObject [(''user'', json_of_user d u)]) = Inl e)"
  by (simp add: handleCreateUser_def Let_def w0 CreateUserResponse_def
      split: sum.splits option.splits)

lemma handleGetUserByID_failure_cases:
  "panicked (handleGetUserByID d newResponseWriter r)
   \<or> status (rw (handleGetUserByID d newResponseWriter r)) = StatusOK
   \<or> (\<exists>e. validateGetUserByID d (route_var r ''id'') = Some e)
   \<or> (\<exists>e. validateGetUserByID d (route_var r ''id'') = None
          \<and> svc_GetByID d (route_var r ''id'') = Inl e)
   \<or> (\<exists>u e. validateGetUserByID d (route_var r ''id'') = None
          \<and> svc_GetByID d (route_var r ''id'') = Inr u
          \<and> json_Marshal d (JObject [(''user'', json_of_user d u)]) = Inl e)"
  by (simp add: handleGetUserByID_def Let_def w0 GetUserResponse_def
      split: sum.splits option.splits)

lemma handleLoginUser_failure_cases:
  "panicked (handleLoginUser d newResponseWriter r)
   \<or> status (rw (handleLoginUser d newResponseWriter r)) = StatusOK
   \<or> (\<exists>e. decodeLoginRequest d (Body r) = Inl e)
   \<or> (\<exists>p e. decodeLoginRequest d (Body r) = Inr p \<and> validateLoginUser d p = Some e)
   \<or> (\<exists>p e. decodeLoginRequest d (Body r) = Inr (Some p)
          \<and> validateLoginUser d (Some p) = None
          \<and> svc_Login d (lr_Username p) (lr_Password p) (Referer r) = Inl e)
   \<or> (\<exists>p t e. decodeLoginRequest d (Body r) = Inr (Some p)
          \<and> validateLoginUser d (Some p) = None
          \<and> svc_Login d (lr_Username p) (lr_Password p) (Referer r) = Inr t
          \<and> json_Marshal d (JObject [(''token'', JString t)]) = Inl e)"
  by (simp add: handleLoginUser_def Let_def w0 LoginResponse_def
      split: sum.splits option.splits)

lemma handleRefreshToken_failure_cases:
  "panicked (handleRefreshToken d newResponseWriter r)
   \<or> status (rw (handleRefreshToken d newResponseWriter r)) = StatusOK
   \<or> (\<exists>e. decodeRefreshTokenRequest d (Body r) = Inl e)
   \<or> (\<exists>p e. decodeRefreshTokenRequest d (Body r) = Inr p \<and> validateRefreshToken d p = Some e)
   \<or> (\<exists>p e. decodeRefreshTokenRequest d (Body r) = Inr (Some p)
          \<and> validateRefreshToken d (Some p) = None
          \<and> jwt_Parse d (rt_Token p) (keyFunc d) = Inl e)
   \<or> (\<exists>p tk. decodeRefreshTokenRequest d (Body r) = Inr (Some p)
          \<and> validateRefreshToken d (Some p) = None
          \<and> jwt_Parse d (rt_Token p) (keyFunc d) = Inr tk \<and> \<not> Valid tk)
   \<or> (\<exists>p tk sub username role e. decodeRefreshTokenRequest d (Body r) = Inr (Some p)
          \<and> validateRefreshToken d (Some p) = None
          \<and> jwt_Parse d (rt_Token p) (keyFunc d) = Inr tk \<and> Valid tk
          \<and> assert_string (Claims tk ''sub'') = Some sub
          \<and> assert_string (Claims tk ''username'') = Some username
          \<and> assert_string (Claims tk ''role'') = Some role
          \<and> svc_RefreshToken d sub username role (Referer r) = Inl e)
   \<or> (\<exists>p tk sub username role t e. decodeRefreshTokenRequest d (Body r) = Inr (Some p)
          \<and> validateRefreshToken d (Some p) = None
          \<and> jwt_Parse d (rt_Token p) (keyFunc d) = Inr tk \<and> Valid tk
          \<and> assert_string (Claims tk ''sub'') = Some sub
          \<and> assert_string (Claims tk ''username'') = Some username
          \<and> assert_string (Claims tk ''role'') = Some role
          \<and> svc_RefreshToken d sub username role (Referer r) = Inr t
          \<and> json_Marshal d (JObject [(''token'', JString t)]) = Inl e)"
  by (simp add: handleRefreshToken_def Let_def w0 LoginResponse_def
      split: sum.splits option.splits)

subsection \<open>The variants of the test double\<close>

lemma env_down_simps:
  "SecretKey env_down = SecretKey env0"
  "decodeCreateUserRequest env_down = decodeCreateUserRequest env0"
  "decodeLoginRequest env_down = decodeLoginRequest env0"
  "decodeRefreshTokenRequest env_down = decodeRefreshTokenRequest env0"
  "validateCreateUser env_down = validateCreateUser env0"
  "validateGetUserByID env_down = validateGetUserByID env0"
  "validateLoginUser env_down = validateLoginUser env0"
  "validateRefreshToken env_down = validateRefreshToken env0"
  "svc_Create env_down c = Inl ''database unavailable''"
  "svc_GetByID env_down = svc_GetByID env0"
  "svc_Login env_down = svc_Login env0"
  "svc_RefreshToken env_down s un ro rf = Inl ''database unavailable''"
  "json_Marshal env_down = json_Marshal env0"
  "json_of_user env_down = json_of_user env0"
  "jwt_decode env_down = jwt_decode env0"
  "jwt_verify env_down = jwt_verify env0"
  "fmt_v env_down = fmt_v env0"
  "DetectContentType env_down = DetectContentType env0"
  by (simp_all add: env_down_def)

lemma env_nomarshal_simps:
  "SecretKey env_nomarshal = SecretKey env0"
  "decodeCreateUserRequest env_nomarshal = decodeCreateUserRequest env0"
  "decodeLoginRequest env_nomarshal = decodeLoginRequest env0"
  "decodeRefreshTokenRequest env_nomarshal = decodeRefreshTokenRequest env0"
  "validateCreateUser env_nomarshal = validateCreateUser env0"
  "validateGetUserByID env_nomarshal = validateGetUserByID env0"
  "validateLoginUser env_nomarshal = validateLoginUser env0"
  "validateRefreshToken env_nomarshal = validateRefreshToken env0"
  "svc_Create env_nomarshal = svc_Create env0"
  "svc_GetByID env_nomarshal = svc_GetByID env0"
  "svc_Login env_nomarshal = svc_Login env0"
  "svc_RefreshToken env_nomarshal = svc_RefreshToken env0"
  "json_Marshal env_nomarshal j =
     (case j of
        JObject [(k, v)] \<Rightarrow>
          if k = ''message'' then marshal0 j else Inl ''json: unsupported value''
      | _ \<Rightarrow> Inl ''json: unsupported value'')"
  "json_of_user env_nomarshal = json_of_user env0"
  "jwt_decode env_nomarshal = jwt_decode env0"
  "jwt_verify env_nomarshal = jwt_verify env0"
  "fmt_v env_nomarshal = fmt_v env0"
  "DetectContentType env_nomarshal = DetectContentType env0"
  by (simp_all add: env_nomarshal_def)

lemma req1_simps:
  "Body req1 = []" "Referer req1 = []" "route_var req1 ''id'' = []"
  by (simp_all add: req1_def route_var_def)

lemma req2_simps:
  "Body req2 = []" "Referer req2 = []" "route_var req2 ''id'' = ''u2''"
  by (simp_all add: req2_def route_var_def)

lemma parse_down:
  "jwt_Parse env_down tks (keyFunc env_down) = jwt_Parse env0 tks (keyFunc env0)"
  by (simp add: jwt_Parse_def keyFunc_def env_down_simps split: sum.splits)

lemma parse_nomarshal:
  "jwt_Parse env_nomarshal tks (keyFunc env_nomarshal) = jwt_Parse env0 tks (keyFunc env0)"
  by (simp add: jwt_Parse_def keyFunc_def env_nomarshal_simps split: sum.splits)

lemma parse0:
  "jwt_Parse env0 ''rs'' (keyFunc env0) = Inl ''Unexpected signing method: RS256''"
  "jwt_Parse env0 ''unmarked'' (keyFunc env0) = Inr (token0 ''unmarked'' ''HS256'' claims0)"
  "jwt_Parse env0 ''good'' (keyFunc env0) = Inr ((token0 ''good'' ''HS256'' claims0)\<lparr>Valid := True\<rparr>)"
  by (simp_all add: jwt_Parse_def keyFunc_def ValidationError_def token0_def env0_simps)

text \<open>
  A run that ends with the success status of its handler sends no Content-Type of the
  handler's own: the header sent is the type detected from the body.
\<close>

lemma success_write_sent:
  "sent_header (Write d js (Header_Set ''Content-Type'' ''application/json''
      (WriteHeader st newResponseWriter))) ''Content-Type''
   = (if js = [] then None else Some (DetectContentType d (take 512 js)))"
  by (simp add: success_write_content_type newResponseWriter_simps)

lemma success_content_type_sniffed:
  "status (rw (handleCreateUser d newResponseWriter r)) \<noteq> StatusCreated
   \<or> sent_header (rw (handleCreateUser d newResponseWriter r)) ''Content-Type''
       = (if written (rw (handleCreateUser d newResponseWriter r)) = [] then None
          else Some (DetectContentType d (take 512 (written (rw (handleCreateUser d newResponseWriter r))))))"
  "status (rw (handleGetUserByID d newResponseWriter r)) \<noteq> StatusOK
   \<or> sent_header (rw (handleGetUserByID d newResponseWriter r)) ''Content-Type''
       = (if written (rw (handleGetUserByID d newResponseWriter r)) = [] then None
          else Some (DetectContentType d (take 512 (written (rw (handleGetUserByID d newResponseWriter r))))))"
  "status (rw (handleLoginUser d newResponseWriter r)) \<noteq> StatusOK
   \<or> sent_header (rw (handleLoginUser d newResponseWriter r)) ''Content-Type''
       = (if written (rw (handleLoginUser d newResponseWriter r)) = [] then None
          else Some (DetectContentType d (take 512 (written (rw (handleLoginUser d newResponseWriter r))))))"
  "status (rw (handleRefreshToken d newResponseWriter r)) \<noteq> StatusOK
   \<or> sent_header (rw (handleRefreshToken d newResponseWriter r)) ''Content-Type''
       = (if written (rw (handleRefreshToken d newResponseWriter r)) = [] then None
          else Some (DetectContentType d (take 512 (written (rw (handleRefreshToken d newResponseWriter r))))))"
  by (simp_all add: handleCreateUser_def handleGetUserByID_def handleLoginUser_def
      handleRefreshToken_def Let_def w0 success_write_sent
      split: sum.splits option.splits)

subsection \<open>Refresh token: the signing method\<close>

text \<open>
  Claim C1. A refresh-token request whose body decodes and validates, and whose token is
  signed with a signing method other than HMAC-SHA256, is answered with status 403, and
  no method of the UserService is called.
\<close>

theorem refresh_other_signing_method_forbidden:
  assumes "decodeRefreshTokenRequest d (Body r) = Inr (Some p)"
      and "validateRefreshToken d (Some p) = None"
      and "jwt_decode d (rt_Token p) = Inr tk"
      and "Method tk \<noteq> SigningMethodHS256"
  shows "status (rw (handleRefreshToken d newResponseWriter r)) = StatusForbidden
         \<and> calls (handleRefreshToken d newResponseWriter r) = []
         \<and> \<not> panicked (handleRefreshToken d newResponseWriter r)"
proof -
  have kf: "keyFunc d tk = Inl (''Unexpected signing method: '' @ fmt_v d (Header tk ''alg''))"
    using assms(4) by (simp add: keyFunc_def)
  have "jwt_Parse d (rt_Token p) (keyFunc d)
        = Inl (ValidationError (''Unexpected signing method: '' @ fmt_v d (Header tk ''alg'')))"
    using assms(3) kf by (simp add: jwt_Parse_def)
  then have "handleRefreshToken d newResponseWriter r
        = returned (respondWithError d ''Access not allowed''
            (ValidationError (''Unexpected signing method: '' @ fmt_v d (Header tk ''alg'')))
              newResponseWriter StatusForbidden) []"
    using assms(1,2) by (simp add: handleRefreshToken_def)
  then show ?thesis
    by (simp add: run_simps respondWithError_status newResponseWriter_simps)
qed

theorem refresh_other_signing_method_forbidden_witness:
  "status (rw (handleRefreshToken env0 newResponseWriter (req0 ''rs''))) = StatusForbidden
   \<and> calls (handleRefreshToken env0 newResponseWriter (req0 ''rs'')) = []
   \<and> \<not> panicked (handleRefreshToken env0 newResponseWriter (req0 ''rs''))"
  using refresh_other_signing_method_forbidden
    [of env0 "req0 ''rs''" "\<lparr>rt_Token = ''rs''\<rparr>" "token0 ''rs'' ''RS256'' claims0"]
  by (simp add: env0_simps req0_simps token0_def)

subsection \<open>Refresh token: a verified token\<close>

text \<open>
  Claim C2. A refresh-token request whose token verifies under the process-wide secret
  and carries the string claims sub, username and role makes the handler call
  RefreshToken exactly once, with these three values and the Referer of the request; when
  the service returns a token, the status is 200 and the body is the JSON encoding of
  the object holding that token under the key \<open>token\<close>.
\<close>

theorem refresh_valid_token_calls_service:
  assumes "decodeRefreshTokenRequest d (Body r) = Inr (Some p)"
      and "validateRefreshToken d (Some p) = None"
      and "jwt_decode d (rt_Token p) = Inr tk"
      and "Method tk = SigningMethodHS256"
      and "jwt_verify d tk (SecretKey d) = Inr tk'"
      and "Valid tk'"
      and "Claims tk' ''sub'' = Some (JString sub)"
      and "Claims tk' ''username'' = Some (JString username)"
      and "Claims tk' ''role'' = Some (JString role)"
  shows "calls (handleRefreshToken d newResponseWriter r)
           = [CallRefreshToken sub username role (Referer r)]
         \<and> (svc_RefreshToken d sub username role (Referer r) = Inr jwtToken \<longrightarrow>
            json_Marshal d (JObject [(''token'', JString jwtToken)]) = Inr js \<longrightarrow>
              status (rw (handleRefreshToken d newResponseWriter r)) = StatusOK
              \<and> written (rw (handleRefreshToken d newResponseWriter r)) = js
              \<and> \<not> panicked (handleRefreshToken d newResponseWriter r))"
proof -
  have "jwt_Parse d (rt_Token p) (keyFunc d) = Inr tk'"
    using assms(3,4,5) by (simp add: jwt_Parse_def keyFunc_def)
  then show ?thesis
    using assms(6-9)
    by (simp add: handleRefreshToken_parsed [OF assms(1,2)] w0 LoginResponse_def
        split: sum.splits)
qed

theorem refresh_valid_token_calls_service_witness:
  "calls (handleRefreshToken env0 newResponseWriter (req0 ''good''))
     = [CallRefreshToken ''u1'' ''alice'' ''admin'' ''http://example.org/'']
   \<and> status (rw (handleRefreshToken env0 newResponseWriter (req0 ''good''))) = StatusOK
   \<and> written (rw (handleRefreshToken env0 newResponseWriter (req0 ''good''))) = ''{token:tok2}''
   \<and> \<not> panicked (handleRefreshToken env0 newResponseWriter (req0 ''good''))"
  using refresh_valid_token_calls_service
    [of env0 "req0 ''good''" "\<lparr>rt_Token = ''good''\<rparr>" "token0 ''good'' ''HS256'' claims0"
        "(token0 ''good'' ''HS256'' claims0)\<lparr>Valid := True\<rparr>" "''u1''" "''alice''" "''admin''"
        "''tok2''" "''{token:tok2}''"]
  by (simp add: env0_simps req0_simps token0_def claims0_def marshal0_def)

subsection \<open>Content-Type\<close>

text \<open>
  Claim C3. The claim asks for the Content-Type application/json on every response. On
  the success path of handleCreateUser the status is written before the header is set:
  the handler's header map holds application/json, the headers sent do not, and the
  response goes out with the type detected from the body. Here the handler is run on the
  test double.
\<close>

theorem create_user_success_content_type:
  "status (rw (handleCreateUser env0 newResponseWriter (req0 ''alice@example.org''))) = StatusCreated
   \<and> header (rw (handleCreateUser env0 newResponseWriter (req0 ''alice@example.org''))) ''Content-Type''
       = Some ''application/json''
   \<and> sent_header (rw (handleCreateUser env0 newResponseWriter (req0 ''alice@example.org''))) ''Content-Type''
       = Some ''text/plain; charset=utf-8''"
  by (simp add: handleCreateUser_def CreateUserResponse_def marshal0_def user0_def env0_simps
      req0_simps run_simps newResponseWriter_def Write_def WriteHeader_def Header_Set_def Let_def)

subsection \<open>Validation failures\<close>

text \<open>
  Claim C4. In each of the four handlers, an input that the handler's validation function
  rejects is answered with status 400, and no method of the UserService is called.
\<close>

theorem validation_failure_bad_request:
  "(decodeCreateUserRequest d (Body r) = Inr p1 \<longrightarrow> validateCreateUser d p1 = Some e1 \<longrightarrow>
      status (rw (handleCreateUser d newResponseWriter r)) = StatusBadRequest
      \<and> calls (handleCreateUser d newResponseWriter r) = [])
   \<and> (validateGetUserByID d (route_var r ''id'') = Some e2 \<longrightarrow>
      status (rw (handleGetUserByID d newResponseWriter r)) = StatusBadRequest
      \<and> calls (handleGetUserByID d newResponseWriter r) = [])
   \<and> (decodeLoginRequest d (Body r) = Inr p3 \<longrightarrow> validateLoginUser d p3 = Some e3 \<longrightarrow>
      status (rw (handleLoginUser d newResponseWriter r)) = StatusBadRequest
      \<and> calls (handleLoginUser d newResponseWriter r) = [])
   \<and> (decodeRefreshTokenRequest d (Body r) = Inr p4 \<longrightarrow> validateRefreshToken d p4 = Some e4 \<longrightarrow>
      status (rw (handleRefreshToken d newResponseWriter r)) = StatusBadRequest
      \<and> calls (handleRefreshToken d newResponseWriter r) = [])"
  by (simp add: handleCreateUser_validation_error handleGetUserByID_validation_error
      handleLoginUser_validation_error handleRefreshToken_validation_error w0)

theorem validation_failure_bad_request_witness:
  "status (rw (handleCreateUser env0 newResponseWriter req1)) = StatusBadRequest
   \<and> calls (handleCreateUser env0 newResponseWriter req1) = []
   \<and> status (rw (handleGetUserByID env0 newResponseWriter req1)) = StatusBadRequest
   \<and> calls (handleGetUserByID env0 newResponseWriter req1) = []
   \<and> status (rw (handleLoginUser env0 newResponseWriter req1)) = StatusBadRequest
   \<and> calls (handleLoginUser env0 newResponseWriter req1) = []
   \<and> status (rw (handleRefreshToken env0 newResponseWriter req1)) = StatusBadRequest
   \<and> calls (handleRefreshToken env0 newResponseWriter req1) = []"
  using validation_failure_bad_request
    [of env0 req1
        "Some \<lparr>rq_Email = [], rq_FirstName = ''Alice'', rq_LastName = ''Doe'',
               rq_Password = ''pw'', rq_Role = ''admin'', rq_Username = ''alice''\<rparr>"
        "''email is required''" "''id is required''"
        "Some \<lparr>lr_Username = [], lr_Password = ''pw''\<rparr>" "''username is required''"
        "Some \<lparr>rt_Token = []\<rparr>" "''token is required''"]
  by (simp add: env0_simps req1_def route_var_def)

subsection \<open>Bodies that do not decode\<close>

text \<open>
  Claim C5, as stated, asks every handler to answer a malformed body with status 500.
  handleGetUserByID never reads the body: on a body that every decoder of the test double
  rejects it calls GetByID and answers 200.
\<close>

theorem get_user_ignores_malformed_body:
  "decodeCreateUserRequest env0 (Body (req0 ''{'')) = Inl ''unexpected EOF''
   \<and> decodeLoginRequest env0 (Body (req0 ''{'')) = Inl ''unexpected EOF''
   \<and> decodeRefreshTokenRequest env0 (Body (req0 ''{'')) = Inl ''unexpected EOF''
   \<and> status (rw (handleGetUserByID env0 newResponseWriter (req0 ''{''))) = StatusOK
   \<and> calls (handleGetUserByID env0 newResponseWriter (req0 ''{'')) = [CallGetByID ''u1'']"
  by (simp add: env0_simps req0_simps handleGetUserByID_def GetUserResponse_def
      marshal0_def w0 Let_def)

text \<open>
  Claim C5, amended. Each handler that decodes a body (create user, login, refresh token)
  answers a body that fails to decode with status 500, calls no service method, and
  writes the JSON encoding of the object holding, under the key \<open>message\<close>, the text
  "unable to decode json request: " followed by the decoder's error.
\<close>

theorem malformed_body_internal_error:
  "(decodeCreateUserRequest d (Body r) = Inl e1 \<longrightarrow>
      status (rw (handleCreateUser d newResponseWriter r)) = StatusInternalServerError
      \<and> calls (handleCreateUser d newResponseWriter r) = []
      \<and> (json_Marshal d (JObject [(''message'', JString (''unable to decode json request'' @ '': '' @ e1))])
            = Inr js1 \<longrightarrow>
          written (rw (handleCreateUser d newResponseWriter r)) = js1))
   \<and> (decodeLoginRequest d (Body r) = Inl e2 \<longrightarrow>
      status (rw (handleLoginUser d newResponseWriter r)) = StatusInternalServerError
      \<and> calls (handleLoginUser d newResponseWriter r) = []
      \<and> (json_Marshal d (JObject [(''message'', JString (''unable to decode json request'' @ '': '' @ e2))])
            = Inr js2 \<longrightarrow>
          written (rw (handleLoginUser d newResponseWriter r)) = js2))
   \<and> (decodeRefreshTokenRequest d (Body r) = Inl e3 \<longrightarrow>
      status (rw (handleRefreshToken d newResponseWriter r)) = StatusInternalServerError
      \<and> calls (handleRefreshToken d newResponseWriter r) = []
      \<and> (json_Marshal d (JObject [(''message'', JString (''unable to decode json request'' @ '': '' @ e3))])
            = Inr js3 \<longrightarrow>
          written (rw (handleRefreshToken d newResponseWriter r)) = js3))"
  by (simp add: handleCreateUser_decode_error handleLoginUser_decode_error
      handleRefreshToken_decode_error w0 ErrorResponse_def)

theorem malformed_body_internal_error_witness:
  "status (rw (handleCreateUser env0 newResponseWriter (req0 ''{''))) = StatusInternalServerError
   \<and> calls (handleCreateUser env0 newResponseWriter (req0 ''{'')) = []
   \<and> written (rw (handleCreateUser env0 newResponseWriter (req0 ''{'')))
       = ''{message:unable to decode json request: unexpected EOF}''
   \<and> status (rw (handleLoginUser env0 newResponseWriter (req0 ''{''))) = StatusInternalServerError
   \<and> calls (handleLoginUser env0 newResponseWriter (req0 ''{'')) = []
   \<and> written (rw (handleLoginUser env0 newResponseWriter (req0 ''{'')))
       = ''{message:unable to decode json request: unexpected EOF}''
   \<and> status (rw (handleRefreshToken env0 newResponseWriter (req0 ''{''))) = StatusInternalServerError
   \<and> calls (handleRefreshToken env0 newResponseWriter (req0 ''{'')) = []
   \<and> written (rw (handleRefreshToken env0 newResponseWriter (req0 ''{'')))
       = ''{message:unable to decode json request: unexpected EOF}''"
  using malformed_body_internal_error
    [of env0 "req0 ''{''" "''unexpected EOF''"
        "''{message:unable to decode json request: unexpected EOF}''" "''unexpected EOF''"
        "''{message:unable to decode json request: unexpected EOF}''" "''unexpected EOF''"
        "''{message:unable to decode json request: unexpected EOF}''"]
  by (simp add: env0_simps req0_simps marshal0_def)

subsection \<open>Creating a user\<close>

text \<open>
  Claim C6. A create-user request whose body decodes and validates makes the handler call
  Create exactly once, with the six fields of the decoded request; when the service
  returns a user, the status is 201 and the body is the JSON encoding of the object
  holding that user under the key \<open>user\<close>.
\<close>

theorem create_user_success:
  assumes "decodeCreateUserRequest d (Body r) = Inr (Some p)"
      and "validateCreateUser d (Some p) = None"
  shows "calls (handleCreateUser d newResponseWriter r)
           = [CallCreate \<lparr>Email = rq_Email p, FirstName = rq_FirstName p, LastName = rq_LastName p,
                           Password = rq_Password p, Role = rq_Role p, Username = rq_Username p\<rparr>]
         \<and> (svc_Create d \<lparr>Email = rq_Email p, FirstName = rq_FirstName p, LastName = rq_LastName p,
                           Password = rq_Password p, Role = rq_Role p, Username = rq_Username p\<rparr>
              = Inr u \<longrightarrow>
            json_Marshal d (JObject [(''user'', json_of_user d u)]) = Inr js \<longrightarrow>
              status (rw (handleCreateUser d newResponseWriter r)) = StatusCreated
              \<and> written (rw (handleCreateUser d newResponseWriter r)) = js
              \<and> \<not> panicked (handleCreateUser d newResponseWriter r))"
  using assms
  by (simp add: handleCreateUser_def Let_def CreateUserResponse_def w0 split: sum.splits)

theorem create_user_success_witness:
  "calls (handleCreateUser env0 newResponseWriter (req0 ''alice@example.org''))
     = [CallCreate \<lparr>Email = ''alice@example.org'', FirstName = ''Alice'', LastName = ''Doe'',
                     Password = ''pw'', Role = ''admin'', Username = ''alice''\<rparr>]
   \<and> status (rw (handleCreateUser env0 newResponseWriter (req0 ''alice@example.org''))) = StatusCreated
   \<and> written (rw (handleCreateUser env0 newResponseWriter (req0 ''alice@example.org''))) = ''{user:{}}''
   \<and> \<not> panicked (handleCreateUser env0 newResponseWriter (req0 ''alice@example.org''))"
  using create_user_success
    [of env0 "req0 ''alice@example.org''"
        "\<lparr>rq_Email = ''alice@example.org'', rq_FirstName = ''Alice'', rq_LastName = ''Doe'',
          rq_Password = ''pw'', rq_Role = ''admin'', rq_Username = ''alice''\<rparr>"
        user0 "''{user:{}}''"]
  by (simp add: env0_simps req0_simps marshal0_def user0_def)

subsection \<open>Failure codes of the login handler\<close>




subsection \<open>The body of an error response\<close>

text \<open>
  Claim C8. Every error response of a handler is the error response for the handler's
  context string of the failing step and the text of the underlying error: its body is
  the JSON encoding of the object whose single field \<open>message\<close> holds the context
  string, a colon and a space, and the error text. For each handler the theorem lists
  the failing branches, each with its context string, its error and its status, and
  states that a run which returns without the success status took one of them.
\<close>

theorem error_body_envelope:
  "(\<forall>e. decodeCreateUserRequest d (Body r) = Inl e \<longrightarrow>
      error_response d ''unable to decode json request'' e StatusInternalServerError
        (rw (handleCreateUser d newResponseWriter r)))
   \<and> (\<forall>p e. decodeCreateUserRequest d (Body r) = Inr p \<longrightarrow> validateCreateUser d p = Some e \<longrightarrow>
      error_response d ''Validation error'' e StatusBadRequest
        (rw (handleCreateUser d newResponseWriter r)))
   \<and> (\<forall>p e. decodeCreateUserRequest d (Body r) = Inr (Some p) \<longrightarrow>
      validateCreateUser d (Some p) = None \<longrightarrow>
      svc_Create d \<lparr>Email = rq_Email p, FirstName = rq_FirstName p, LastName = rq_LastName p,
                     Password = rq_Password p, Role = rq_Role p, Username = rq_Username p\<rparr> = Inl e \<longrightarrow>
      error_response d ''unable to add user'' e StatusInternalServerError
        (rw (handleCreateUser d newResponseWriter r)))
   \<and> (\<forall>p u e. decodeCreateUserRequest d (Body r) = Inr (Some p) \<longrightarrow>
      validateCreateUser d (Some p) = None \<longrightarrow>
      svc_Create d \<lparr>Email = rq_Email p, FirstName = rq_FirstName p, LastName = rq_LastName p,
                     Password = rq_Password p, Role = rq_Role p, Username = rq_Username p\<rparr> = Inr u \<longrightarrow>
      json_Marshal d (JObject [(''user'', json_of_user d u)]) = Inl e \<longrightarrow>
      error_response d ''unable to marshal json response'' e StatusInternalServerError
        (rw (handleCreateUser d newResponseWriter r)))
   \<and> (\<not> panicked (handleCreateUser d newResponseWriter r) \<longrightarrow>
      status (rw (handleCreateUser d newResponseWriter r)) \<noteq> StatusCreated \<longrightarrow>
        (\<exists>e. decodeCreateUserRequest d (Body r) = Inl e)
        \<or> (\<exists>p e. decodeCreateUserRequest d (Body r) = Inr p \<and> validateCreateUser d p = Some e)
        \<or> (\<exists>p e. decodeCreateUserRequest d (Body r) = Inr (Some p)
              \<and> validateCreateUser d (Some p) = None
              \<and> svc_Create d \<lparr>Email = rq_Email p, FirstName = rq_FirstName p,
                               LastName = rq_LastName p, Password = rq_Password p,
                               Role = rq_Role p, Username = rq_Username p\<rparr> = Inl e)
        \<or> (\<exists>p u e. decodeCreateUserRequest d (Body r) = Inr (Some p)
              \<and> validateCreateUser d (Some p) = None
              \<and> svc_Create d \<lparr>Email = rq_Email p, FirstName = rq_FirstName p,
                               LastName = rq_LastName p, Password = rq_Password p,
                               Role = rq_Role p, Username = rq_Username p\<rparr> = Inr u
              \<and> json_Marshal d (JObject [(''user'', json_of_user d u)]) = Inl e))
   \<and> (\<forall>e. validateGetUserByID d (route_var r ''id'') = Some e \<longrightarrow>
      error_response d ''Validation error'' e StatusBadRequest
        (rw (handleGetUserByID d newResponseWriter r)))
   \<and> (\<forall>e. validateGetUserByID d (route_var r ''id'') = None \<longrightarrow>
      svc_GetByID d (route_var r ''id'') = Inl e \<longrightarrow>
      error_response d ''unable to get user'' e StatusInternalServerError
        (rw (handleGetUserByID d newResponseWriter r)))
   \<and> (\<forall>u e. validateGetUserByID d (route_var r ''id'') = None \<longrightarrow>
      svc_GetByID d (route_var r ''id'') = Inr u \<longrightarrow>
      json_Marshal d (JObject [(''user'', json_of_user d u)]) = Inl e \<longrightarrow>
      error_response d ''unable to marshal json response'' e StatusInternalServerError
        (rw (handleGetUserByID d newResponseWriter r)))
   \<and> (\<not> panicked (handleGetUserByID d newResponseWriter r) \<longrightarrow>
      status (rw (handleGetUserByID d newResponseWriter r)) \<noteq> StatusOK \<longrightarrow>
        (\<exists>e. validateGetUserByID d (route_var r ''id'') = Some e)
        \<or> (\<exists>e. validateGetUserByID d (route_var r ''id'') = None
              \<and> svc_GetByID d (route_var r ''id'') = Inl e)
        \<or> (\<exists>u e. validateGetUserByID d (route_var r ''id'') = None
              \<and> svc_GetByID d (route_var r ''id'') = Inr u
              \<and> json_Marshal d (JObject [(''user'', json_of_user d u)]) = Inl e))
   \<and> (\<forall>e. decodeLoginRequest d (Body r) = Inl e \<longrightarrow>
      error_response d ''unable to decode json request'' e StatusInternalServerError
        (rw (handleLoginUser d newResponseWriter r)))
   \<and> (\<forall>p e. decodeLoginRequest d (Body r) = Inr p \<longrightarrow> validateLoginUser d p = Some e \<longrightarrow>
      error_response d ''Validation error'' e StatusBadRequest
        (rw (handleLoginUser d newResponseWriter r)))
   \<and> (\<forall>p e. decodeLoginRequest d (Body r) = Inr (Some p) \<longrightarrow>
      validateLoginUser d (Some p) = None \<longrightarrow>
      svc_Login d (lr_Username p) (lr_Password p) (Referer r) = Inl e \<longrightarrow>
      error_response d ''unable to log in user'' e StatusBadRequest
        (rw (handleLoginUser d newResponseWriter r)))
   \<and> (\<forall>p t e. decodeLoginRequest d (Body r) = Inr (Some p) \<longrightarrow>
      validateLoginUser d (Some p) = None \<longrightarrow>
      svc_Login d (lr_Username p) (lr_Password p) (Referer r) = Inr t \<longrightarrow>
      json_Marshal d (JObject [(''token'', JString t)]) = Inl e \<longrightarrow>
      error_response d ''unable to marshal json response'' e StatusInternalServerError
        (rw (handleLoginUser d newResponseWriter r)))
   \<and> (\<not> panicked (handleLoginUser d newResponseWriter r) \<longrightarrow>
      status (rw (handleLoginUser d newResponseWriter r)) \<noteq> StatusOK \<longrightarrow>
        (\<exists>e. decodeLoginRequest d (Body r) = Inl e)
        \<or> (\<exists>p e. decodeLoginRequest d (Body r) = Inr p \<and> validateLoginUser d p = Some e)
        \<or> (\<exists>p e. decodeLoginRequest d (Body r) = Inr (Some p)
              \<and> validateLoginUser d (Some p) = None
              \<and> svc_Login d (lr_Username p) (lr_Password p) (Referer r) = Inl e)
        \<or> (\<exists>p t e. decodeLoginRequest d (Body r) = Inr (Some p)
              \<and> validateLoginUser d (Some p) = None
              \<and> svc_Login d (lr_Username p) (lr_Password p) (Referer r) = Inr t
              \<and> json_Marshal d (JObject [(''token'', JString t)]) = Inl e))
   \<and> (\<forall>e. decodeRefreshTokenRequest d (Body r) = Inl e \<longrightarrow>
      error_response d ''unable to decode json request'' e StatusInternalServerError
        (rw (handleRefreshToken d newResponseWriter r)))
   \<and> (\<forall>p e. decodeRefreshTokenRequest d (Body r) = Inr p \<longrightarrow>
      validateRefreshToken d p = Some e \<longrightarrow>
      error_response d ''Validation error'' e StatusBadRequest
        (rw (handleRefreshToken d newResponseWriter r)))
   \<and> (\<forall>p e. decodeRefreshTokenRequest d (Body r) = Inr (Some p) \<longrightarrow>
      validateRefreshToken d (Some p) = None \<longrightarrow>
      jwt_Parse d (rt_Token p) (keyFunc d) = Inl e \<longrightarrow>
      error_response d ''Access not allowed'' e StatusForbidden
        (rw (handleRefreshToken d newResponseWriter r)))
   \<and> (\<forall>p tk. decodeRefreshTokenRequest d (Body r) = Inr (Some p) \<longrightarrow>
      validateRefreshToken d (Some p) = None \<longrightarrow>
      jwt_Parse d (rt_Token p) (keyFunc d) = Inr tk \<longrightarrow> \<not> Valid tk \<longrightarrow>
      error_response d ''Access not allowed'' ''Invalid jwt token'' StatusForbidden
        (rw (handleRefreshToken d newResponseWriter r)))
   \<and> (\<forall>p tk sub username role e. decodeRefreshTokenRequest d (Body r) = Inr (Some p) \<longrightarrow>
      validateRefreshToken d (Some p) = None \<longrightarrow>
      jwt_Parse d (rt_Token p) (keyFunc d) = Inr tk \<longrightarrow> Valid tk \<longrightarrow>
      assert_string (Claims tk ''sub'') = Some sub \<longrightarrow>
      assert_string (Claims tk ''username'') = Some username \<longrightarrow>
      assert_string (Claims tk ''role'') = Some role \<longrightarrow>
      svc_RefreshToken d sub username role (Referer r) = Inl e \<longrightarrow>
      error_response d ''unable to refresh token'' e StatusInternalServerError
        (rw (handleRefreshToken d newResponseWriter r)))
   \<and> (\<forall>p tk sub username role t e. decodeRefreshTokenRequest d (Body r) = Inr (Some p) \<longrightarrow>
      validateRefreshToken d (Some p) = None \<longrightarrow>
      jwt_Parse d (rt_Token p) (keyFunc d) = Inr tk \<longrightarrow> Valid tk \<longrightarrow>
      assert_string (Claims tk ''sub'') = Some sub \<longrightarrow>
      assert_string (Claims tk ''username'') = Some username \<longrightarrow>
      assert_string (Claims tk ''role'') = Some role \<longrightarrow>
      svc_RefreshToken d sub username role (Referer r) = Inr t \<longrightarrow>
      json_Marshal d (JObject [(''token'', JString t)]) = Inl e \<longrightarrow>
      error_response d ''unable to marshal json response'' e StatusInternalServerError
        (rw (handleRefreshToken d newResponseWriter r)))
   \<and> (\<not> panicked (handleRefreshToken d newResponseWriter r) \<longrightarrow>
      status (rw (handleRefreshToken d newResponseWriter r)) \<noteq> StatusOK \<longrightarrow>
        (\<exists>e. decodeRefreshTokenRequest d (Body r) = Inl e)
        \<or> (\<exists>p e. decodeRefreshTokenRequest d (Body r) = Inr p \<and> validateRefreshToken d p = Some e)
        \<or> (\<exists>p e. decodeRefreshTokenRequest d (Body r) = Inr (Some p)
              \<and> validateRefreshToken d (Some p) = None
              \<and> jwt_Parse d (rt_Token p) (keyFunc d) = Inl e)
        \<or> (\<exists>p tk. decodeRefreshTokenRequest d (Body r) = Inr (Some p)
              \<and> validateRefreshToken d (Some p) = None
              \<and> jwt_Parse d (rt_Token p) (keyFunc d) = Inr tk \<and> \<not> Valid tk)
        \<or> (\<exists>p tk sub username role e. decodeRefreshTokenRequest d (Body r) = Inr (Some p)
              \<and> validateRefreshToken d (Some p) = None
              \<and> jwt_Parse d (rt_Token p) (keyFunc d) = Inr tk \<and> Valid tk
              \<and> assert_string (Claims tk ''sub'') = Some sub
              \<and> assert_string (Claims tk ''username'') = Some username
              \<and> assert_string (Claims tk ''role'') = Some role
              \<and> svc_RefreshToken d sub username role (Referer r) = Inl e)
        \<or> (\<exists>p tk sub username role t e. decodeRefreshTokenRequest d (Body r) = Inr (Some p)
              \<and> validateRefreshToken d (Some p) = None
              \<and> jwt_Parse d (rt_Token p) (keyFunc d) = Inr tk \<and> Valid tk
              \<and> assert_string (Claims tk ''sub'') = Some sub
              \<and> assert_string (Claims tk ''username'') = Some username
              \<and> assert_string (Claims tk ''role'') = Some role
              \<and> svc_RefreshToken d sub username role (Referer r) = Inr t
              \<and> json_Marshal d (JObject [(''token'', JString t)]) = Inl e))"
  apply (intro conjI allI impI)
  subgoal by (simp add: handleCreateUser_def run_simps error_responseI)
  subgoal by (simp add: handleCreateUser_def run_simps error_responseI)
  subgoal by (simp add: handleCreateUser_def Let_def run_simps error_responseI)
  subgoal by (simp add: handleCreateUser_def Let_def CreateUserResponse_def run_simps error_responseI)
  subgoal using handleCreateUser_failure_cases [of d r] by blast
  subgoal by (simp add: handleGetUserByID_def Let_def run_simps error_responseI)
  subgoal by (simp add: handleGetUserByID_def Let_def run_simps error_responseI)
  subgoal by (simp add: handleGetUserByID_def Let_def GetUserResponse_def run_simps error_responseI)
  subgoal using handleGetUserByID_failure_cases [of d r] by blast
  subgoal by (simp add: handleLoginUser_def run_simps error_responseI)
  subgoal by (simp add: handleLoginUser_def run_simps error_responseI)
  subgoal by (simp add: handleLoginUser_def Let_def run_simps error_responseI)
  subgoal by (simp add: handleLoginUser_def Let_def LoginResponse_def run_simps error_responseI)
  subgoal using handleLoginUser_failure_cases [of d r] by blast
  subgoal by (simp add: handleRefreshToken_def run_simps error_responseI)
  subgoal by (simp add: handleRefreshToken_def run_simps error_responseI)
  subgoal by (simp add: handleRefreshToken_def run_simps error_responseI)
  subgoal by (simp add: handleRefreshToken_def run_simps error_responseI)
  subgoal by (simp add: handleRefreshToken_def Let_def run_simps error_responseI)
  subgoal by (simp add: handleRefreshToken_def Let_def LoginResponse_def run_simps error_responseI)
  subgoal using handleRefreshToken_failure_cases [of d r] by blast
  done

theorem error_body_envelope_witness:
  "error_response env0 ''unable to decode json request'' ''unexpected EOF'' StatusInternalServerError
     (rw (handleCreateUser env0 newResponseWriter (req0 ''{'')))
   \<and> error_response env0 ''Validation error'' ''email is required'' StatusBadRequest
     (rw (handleCreateUser env0 newResponseWriter req1))
   \<and> error_response env_down ''unable to add user'' ''database unavailable'' StatusInternalServerError
     (rw (handleCreateUser env_down newResponseWriter (req0 ''alice@example.org'')))
   \<and> error_response env_nomarshal ''unable to marshal json response'' ''json: unsupported value''
     StatusInternalServerError
     (rw (handleCreateUser env_nomarshal newResponseWriter (req0 ''alice@example.org'')))
   \<and> error_response env0 ''Validation error'' ''id is required'' StatusBadRequest
     (rw (handleGetUserByID env0 newResponseWriter req1))
   \<and> error_response env0 ''unable to get user'' ''user not found'' StatusInternalServerError
     (rw (handleGetUserByID env0 newResponseWriter req2))
   \<and> error_response env_nomarshal ''unable to marshal json response'' ''json: unsupported value''
     StatusInternalServerError
     (rw (handleGetUserByID env_nomarshal newResponseWriter (req0 [])))
   \<and> error_response env0 ''unable to decode json request'' ''unexpected EOF'' StatusInternalServerError
     (rw (handleLoginUser env0 newResponseWriter (req0 ''{'')))
   \<and> error_response env0 ''Validation error'' ''username is required'' StatusBadRequest
     (rw (handleLoginUser env0 newResponseWriter req1))
   \<and> error_response env0 ''unable to log in user'' ''wrong credentials'' StatusBadRequest
     (rw (handleLoginUser env0 newResponseWriter (req0 ''bob'')))
   \<and> error_response env_nomarshal ''unable to marshal json response'' ''json: unsupported value''
     StatusInternalServerError
     (rw (handleLoginUser env_nomarshal newResponseWriter (req0 ''alice'')))
   \<and> error_response env0 ''unable to decode json request'' ''unexpected EOF'' StatusInternalServerError
     (rw (handleRefreshToken env0 newResponseWriter (req0 ''{'')))
   \<and> error_response env0 ''Validation error'' ''token is required'' StatusBadRequest
     (rw (handleRefreshToken env0 newResponseWriter req1))
   \<and> error_response env0 ''Access not allowed'' ''Unexpected signing method: RS256'' StatusForbidden
     (rw (handleRefreshToken env0 newResponseWriter (req0 ''rs'')))
   \<and> error_response env0 ''Access not allowed'' ''Invalid jwt token'' StatusForbidden
     (rw (handleRefreshToken env0 newResponseWriter (req0 ''unmarked'')))
   \<and> error_response env_down ''unable to refresh token'' ''database unavailable''
     StatusInternalServerError
     (rw (handleRefreshToken env_down newResponseWriter (req0 ''good'')))
   \<and> error_response env_nomarshal ''unable to marshal json response'' ''json: unsupported value''
     StatusInternalServerError
     (rw (handleRefreshToken env_nomarshal newResponseWriter (req0 ''good'')))
   \<and> written (rw (handleRefreshToken env0 newResponseWriter (req0 ''rs'')))
       = ''{message:Access not allowed: Unexpected signing method: RS256}''"
proof -
  note ev = env_down_simps env_nomarshal_simps env0_simps req0_simps req1_simps req2_simps
    parse0 parse_down parse_nomarshal token0_def claims0_def marshal0_def
  have c1: "error_response env0 ''unable to decode json request'' ''unexpected EOF'' StatusInternalServerError
      (rw (handleCreateUser env0 newResponseWriter (req0 ''{'')))"
    using error_body_envelope [of env0 "req0 ''{''"] by (simp add: ev)
  have c2: "error_response env0 ''Validation error'' ''email is required'' StatusBadRequest
      (rw (handleCreateUser env0 newResponseWriter req1))"
    using error_body_envelope [of env0 "req1"] by (simp add: ev)
  have c3: "error_response env_down ''unable to add user'' ''database unavailable'' StatusInternalServerError
      (rw (handleCreateUser env_down newResponseWriter (req0 ''alice@example.org'')))"
    using error_body_envelope [of env_down "req0 ''alice@example.org''"] by (simp add: ev)
  have c4: "error_response env_nomarshal ''unable to marshal json response'' ''json: unsupported value'' StatusInternalServerError
      (rw (handleCreateUser env_nomarshal newResponseWriter (req0 ''alice@example.org'')))"
    using error_body_envelope [of env_nomarshal "req0 ''alice@example.org''"] by (simp add: ev)
  have c5: "error_response env0 ''Validation error'' ''id is required'' StatusBadRequest
      (rw (handleGetUserByID env0 newResponseWriter req1))"
    using error_body_envelope [of env0 "req1"] by (simp add: ev)
  have c6: "error_response env0 ''unable to get user'' ''user not found'' StatusInternalServerError
      (rw (handleGetUserByID env0 newResponseWriter req2))"
    using error_body_envelope [of env0 "req2"] by (simp add: ev)
  have c7: "error_response env_nomarshal ''unable to marshal json response'' ''json: unsupported value'' StatusInternalServerError
      (rw (handleGetUserByID env_nomarshal newResponseWriter (req0 [])))"
    using error_body_envelope [of env_nomarshal "req0 []"] by (simp add: ev)
  have c8: "error_response env0 ''unable to decode json request'' ''unexpected EOF'' StatusInternalServerError
      (rw (handleLoginUser env0 newResponseWriter (req0 ''{'')))"
    using error_body_envelope [of env0 "req0 ''{''"] by (simp add: ev)
  have c9: "error_response env0 ''Validation error'' ''username is required'' StatusBadRequest
      (rw (handleLoginUser env0 newResponseWriter req1))"
    using error_body_envelope [of env0 "req1"] by (simp add: ev)
  have c10: "error_response env0 ''unable to log in user'' ''wrong credentials'' StatusBadRequest
      (rw (handleLoginUser env0 newResponseWriter (req0 ''bob'')))"
    using error_body_envelope [of env0 "req0 ''bob''"] by (simp add: ev)
  have c11: "error_response env_nomarshal ''unable to marshal json response'' ''json: unsupported value'' StatusInternalServerError
      (rw (handleLoginUser env_nomarshal newResponseWriter (req0 ''alice'')))"
    using error_body_envelope [of env_nomarshal "req0 ''alice''"] by (simp add: ev)
  have c12: "error_response env0 ''unable to decode json request'' ''unexpected EOF'' StatusInternalServerError
      (rw (handleRefreshToken env0 newResponseWriter (req0 ''{'')))"
    using error_body_envelope [of env0 "req0 ''{''"] by (simp add: ev)
  have c13: "error_response env0 ''Validation error'' ''token is required'' StatusBadRequest
      (rw (handleRefreshToken env0 newResponseWriter req1))"
    using error_body_envelope [of env0 "req1"] by (simp add: ev)
  have c14: "error_response env0 ''Access not allowed'' ''Unexpected signing method: RS256'' StatusForbidden
      (rw (handleRefreshToken env0 newResponseWriter (req0 ''rs'')))"
    using error_body_envelope [of env0 "req0 ''rs''"] by (simp add: ev)
  have c15: "error_response env0 ''Access not allowed'' ''Invalid jwt token'' StatusForbidden
      (rw (handleRefreshToken env0 newResponseWriter (req0 ''unmarked'')))"
    using error_body_envelope [of env0 "req0 ''unmarked''"] by (simp add: ev)
  have c16: "error_response env_down ''unable to refresh token'' ''database unavailable'' StatusInternalServerError
      (rw (handleRefreshToken env_down newResponseWriter (req0 ''good'')))"
    using error_body_envelope [of env_down "req0 ''good''"] by (simp add: ev)
  have c17: "error_response env_nomarshal ''unable to marshal json response'' ''json: unsupported value'' StatusInternalServerError
      (rw (handleRefreshToken env_nomarshal newResponseWriter (req0 ''good'')))"
    using error_body_envelope [of env_nomarshal "req0 ''good''"] by (simp add: ev)
  have c18: "written (rw (handleRefreshToken env0 newResponseWriter (req0 ''rs'')))
       = ''{message:Access not allowed: Unexpected signing method: RS256}''"
    using c14 [unfolded error_response_def, THEN conjunct2, THEN conjunct2]
    by (simp add: env0_simps marshal0_def)
  show ?thesis
    by (intro conjI) (rule c1 c2 c3 c4 c5 c6 c7 c8 c9 c10 c11 c12 c13 c14 c15 c16 c17 c18)+
qed

subsection \<open>Refresh token: claims that are not strings\<close>

text \<open>
  Claim C9. A refresh-token request whose token parses and verifies, but whose sub,
  username or role claim is missing or is not a string, ends in a panic: nothing is
  written to the response writer and no service method is called. The test double has
  such a token.
\<close>

theorem refresh_malformed_claims_panic:
  assumes "decodeRefreshTokenRequest d (Body r) = Inr (Some p)"
      and "validateRefreshToken d (Some p) = None"
      and "jwt_Parse d (rt_Token p) (keyFunc d) = Inr tk"
      and "Valid tk"
      and "assert_string (Claims tk ''sub'') = None
           \<or> assert_string (Claims tk ''username'') = None
           \<or> assert_string (Claims tk ''role'') = None"
  shows "panicked (handleRefreshToken d newResponseWriter r)
         \<and> rw (handleRefreshToken d newResponseWriter r) = newResponseWriter
         \<and> calls (handleRefreshToken d newResponseWriter r) = []"
  using assms(3-5)
  by (auto simp add: handleRefreshToken_parsed [OF assms(1,2)] run_simps split: option.splits)

theorem refresh_malformed_claims_panic_witness:
  "jwt_Parse env0 ''noclaims'' (keyFunc env0)
     = Inr ((token0 ''noclaims'' ''HS256'' Map.empty)\<lparr>Valid := True\<rparr>)
   \<and> panicked (handleRefreshToken env0 newResponseWriter (req0 ''noclaims''))
   \<and> rw (handleRefreshToken env0 newResponseWriter (req0 ''noclaims'')) = newResponseWriter
   \<and> calls (handleRefreshToken env0 newResponseWriter (req0 ''noclaims'')) = []"
proof -
  have q: "jwt_Parse env0 ''noclaims'' (keyFunc env0)
             = Inr ((token0 ''noclaims'' ''HS256'' Map.empty)\<lparr>Valid := True\<rparr>)"
    by (simp add: jwt_Parse_def keyFunc_def token0_def env0_simps)
  show ?thesis
    using q refresh_malformed_claims_panic
      [of env0 "req0 ''noclaims''" "\<lparr>rt_Token = ''noclaims''\<rparr>"
          "(token0 ''noclaims'' ''HS256'' Map.empty)\<lparr>Valid := True\<rparr>"]
    by (simp add: env0_simps req0_simps token0_def)
qed

subsection \<open>Refresh token: the service is called after verification only\<close>

text \<open>
  Claim C10. The refresh-token handler calls the service only when jwt.Parse returned no
  error and the token it returned is marked valid. A token that parses without error
  and is not marked valid is answered with status 403 and no service call, and so is a
  token that jwt.Parse refuses.
\<close>

theorem refresh_service_only_after_verification:
  "(calls (handleRefreshToken d newResponseWriter r) \<noteq> [] \<longrightarrow>
      (\<exists>p tk. decodeRefreshTokenRequest d (Body r) = Inr (Some p)
         \<and> jwt_Parse d (rt_Token p) (keyFunc d) = Inr tk \<and> Valid tk))
   \<and> (decodeRefreshTokenRequest d (Body r) = Inr (Some q) \<longrightarrow>
      validateRefreshToken d (Some q) = None \<longrightarrow>
      jwt_Parse d (rt_Token q) (keyFunc d) = Inr tk' \<longrightarrow> \<not> Valid tk' \<longrightarrow>
        status (rw (handleRefreshToken d newResponseWriter r)) = StatusForbidden
        \<and> calls (handleRefreshToken d newResponseWriter r) = [])
   \<and> (decodeRefreshTokenRequest d (Body r) = Inr (Some q') \<longrightarrow>
      validateRefreshToken d (Some q') = None \<longrightarrow>
      jwt_Parse d (rt_Token q') (keyFunc d) = Inl e \<longrightarrow>
        status (rw (handleRefreshToken d newResponseWriter r)) = StatusForbidden
        \<and> calls (handleRefreshToken d newResponseWriter r) = [])"
proof (intro conjI impI)
  assume "calls (handleRefreshToken d newResponseWriter r) \<noteq> []"
  then show "\<exists>p tk. decodeRefreshTokenRequest d (Body r) = Inr (Some p)
         \<and> jwt_Parse d (rt_Token p) (keyFunc d) = Inr tk \<and> Valid tk"
    by (simp add: handleRefreshToken_def Let_def run_simps
        split: sum.splits option.splits if_splits)
next
  assume a: "decodeRefreshTokenRequest d (Body r) = Inr (Some q)"
    "validateRefreshToken d (Some q) = None"
    "jwt_Parse d (rt_Token q) (keyFunc d) = Inr tk'" "\<not> Valid tk'"
  show "status (rw (handleRefreshToken d newResponseWriter r)) = StatusForbidden"
    and "calls (handleRefreshToken d newResponseWriter r) = []"
    using a(3,4) by (simp_all add: handleRefreshToken_parsed [OF a(1,2)] w0)
next
  assume a: "decodeRefreshTokenRequest d (Body r) = Inr (Some q')"
    "validateRefreshToken d (Some q') = None"
    "jwt_Parse d (rt_Token q') (keyFunc d) = Inl e"
  show "status (rw (handleRefreshToken d newResponseWriter r)) = StatusForbidden"
    and "calls (handleRefreshToken d newResponseWriter r) = []"
    using a(3) by (simp_all add: handleRefreshToken_parsed [OF a(1,2)] w0)
qed

theorem refresh_service_only_after_verification_witness:
  "calls (handleRefreshToken env0 newResponseWriter (req0 ''good'')) \<noteq> []
   \<and> (\<exists>p tk. decodeRefreshTokenRequest env0 (Body (req0 ''good'')) = Inr (Some p)
         \<and> jwt_Parse env0 (rt_Token p) (keyFunc env0) = Inr tk \<and> Valid tk)
   \<and> jwt_Parse env0 ''unmarked'' (keyFunc env0) = Inr (token0 ''unmarked'' ''HS256'' claims0)
   \<and> \<not> Valid (token0 ''unmarked'' ''HS256'' claims0)
   \<and> status (rw (handleRefreshToken env0 newResponseWriter (req0 ''unmarked''))) = StatusForbidden
   \<and> calls (handleRefreshToken env0 newResponseWriter (req0 ''unmarked'')) = []
   \<and> jwt_Parse env0 ''bogus'' (keyFunc env0) = Inl ''token contains an invalid number of segments''
   \<and> status (rw (handleRefreshToken env0 newResponseWriter (req0 ''bogus''))) = StatusForbidden
   \<and> calls (handleRefreshToken env0 newResponseWriter (req0 ''bogus'')) = []"
proof -
  have g: "calls (handleRefreshToken env0 newResponseWriter (req0 ''good'')) \<noteq> []"
    by (simp add: handleRefreshToken_def jwt_Parse_def keyFunc_def token0_def claims0_def
        LoginResponse_def marshal0_def env0_simps req0_simps w0)
  have u: "jwt_Parse env0 ''unmarked'' (keyFunc env0) = Inr (token0 ''unmarked'' ''HS256'' claims0)"
    by (simp add: jwt_Parse_def keyFunc_def token0_def env0_simps)
  have b: "jwt_Parse env0 ''bogus'' (keyFunc env0) = Inl ''token contains an invalid number of segments''"
    by (simp add: jwt_Parse_def env0_simps)
  have v: "\<not> Valid (token0 ''unmarked'' ''HS256'' claims0)"
    by (simp add: token0_def)
  show ?thesis
    using g u b v
      refresh_service_only_after_verification [of env0 "req0 ''good''"]
      refresh_service_only_after_verification
        [of env0 "req0 ''unmarked''" "\<lparr>rt_Token = ''unmarked''\<rparr>" "token0 ''unmarked'' ''HS256'' claims0"]
      refresh_service_only_after_verification
        [of env0 "req0 ''bogus''" _ _ "\<lparr>rt_Token = ''bogus''\<rparr>"
            "''token contains an invalid number of segments''"]
    by (simp add: env0_simps req0_simps)
qed

end
